theory Spec2Isabelle
  imports Main
begin

section \<open>Arbitrary-precision integers\<close>

text \<open>
  The program computes on \<^verbatim>\<open>BigInteger\<close> objects of the \<^verbatim>\<open>jsbn\<close> library, which are
  modelled as \<^typ>\<open>int\<close>. \<^verbatim>\<open>add\<close>, \<^verbatim>\<open>subtract\<close>, \<^verbatim>\<open>multiply\<close> and \<^verbatim>\<open>compareTo\<close> are the
  operations and the order of \<^typ>\<open>int\<close>; \<^verbatim>\<open>a.mod(m)\<close> is \<open>a mod m\<close> (the two agree for
  a positive modulus, and for every non-zero modulus on whether the result is zero);
  \<^verbatim>\<open>pow\<close> and \<^verbatim>\<open>modPow\<close> are taken at the arithmetic meaning the specification
  gives them, with an exponent below zero read as zero.
\<close>

definition modPow :: "int \<Rightarrow> int \<Rightarrow> int \<Rightarrow> int" where
  \<comment> \<open>Modelled from the spec: \<^verbatim>\<open>BigInteger.modPow\<close> belongs to the jsbn library, which is
      not among the sources; section 4.1 reads \<^verbatim>\<open>BI_TWO.modPow(n - 1, n)\<close> as
      \<open>2 ^ (n - 1) mod n\<close>.\<close>
  "modPow b e m = b ^ nat e mod m"

definition pow :: "int \<Rightarrow> int \<Rightarrow> int" where
  \<comment> \<open>Modelled from the spec: \<^verbatim>\<open>BigInteger.pow\<close> belongs to the jsbn library, which is not
      among the sources; section 4.2 reads \<^verbatim>\<open>BI_TWO.pow(p)\<close> as \<open>2 ^ p\<close>.\<close>
  "pow b e = b ^ nat e"

section \<open>Chain types and errors\<close>

text \<open>The chain types are the string tags of \<^verbatim>\<open>PrimeBlockchain\<close>, compared with \<^verbatim>\<open>===\<close>.\<close>

definition CUNNINGHAM_CHAIN_1 :: string where
  "CUNNINGHAM_CHAIN_1 = ''CUNNINGHAM_CHAIN_1''"

definition CUNNINGHAM_CHAIN_2 :: string where
  "CUNNINGHAM_CHAIN_2 = ''CUNNINGHAM_CHAIN_2''"

definition BITWIN_CHAIN :: string where
  "BITWIN_CHAIN = ''BITWIN_CHAIN''"

definition BLOCK_HEADER_HASH_MIN :: int where
  "BLOCK_HEADER_HASH_MIN = push_bit 255 1"

definition BI_BASE_PRIMORIAL :: int where
  "BI_BASE_PRIMORIAL = 210"

datatype error =
    InvalidChainType    \<comment> \<open>the \<^verbatim>\<open>throw\<close> of \<^verbatim>\<open>findCunninghamChain\<close>, the exit of \<^verbatim>\<open>buildChain\<close>\<close>
  | InvalidChainLength  \<comment> \<open>the exit of \<^verbatim>\<open>buildChain\<close> on a chain length below 1\<close>

section \<open>The class Prime\<close>

definition fermatPrimalityTest :: "int \<Rightarrow> bool" where
  "fermatPrimalityTest n =
     (if n = 2 then True
      else if modPow 2 (n - 1) n = 1 then True
      else False)"

definition eulerLagrangePrimalityTest :: "int \<Rightarrow> string \<Rightarrow> bool" where
  "eulerLagrangePrimalityTest p chainType =
     (let pMod4 = p mod 4 in
      if 0 < p \<and> p < 4 then True
      else if p = 4 then (if chainType = CUNNINGHAM_CHAIN_2 then True else False)
      else if chainType = CUNNINGHAM_CHAIN_1 then
        (if pMod4 = 1 then
           (let a = pow 2 p + 1; m = p * 2 + 1 in if a mod m = 0 then True else False)
         else if pMod4 = 3 then
           (let a = pow 2 p - 1; m = p * 2 + 1 in if a mod m = 0 then True else False)
         else False)
      else if chainType = CUNNINGHAM_CHAIN_2 then
        (if pMod4 = 1 then
           (let a = pow 2 (p - 1) - 1; m = p * 2 - 1 in if a mod m = 0 then True else False)
         else if pMod4 = 3 then
           (let a = pow 2 (p - 1) + 1; m = p * 2 - 1 in if a mod m = 0 then True else False)
         else False)
      else False)"

text \<open>
  \<^verbatim>\<open>n.isProbablePrime()\<close> is the probabilistic test of the library. It is a parameter
  \<open>isProbablePrime\<close> of the functions that call it, a predicate on numbers (a number
  tested twice gets the same answer), so that every result holds whatever the test
  answers.

  The loop of \<^verbatim>\<open>findCunninghamChain\<close>: \<open>n\<close> is the current member, \<open>len\<close> the variable
  \<^verbatim>\<open>chainLength\<close>. The loop is entered with \<open>len < target\<close> and every iteration that
  continues has \<open>len + 1 < target\<close>.
\<close>

function findCunninghamChain_loop :: "(int \<Rightarrow> bool) \<Rightarrow> string \<Rightarrow> int \<Rightarrow> int \<Rightarrow> int \<Rightarrow> error + int" where
  "findCunninghamChain_loop isProbablePrime chainType target n len =
     (if eulerLagrangePrimalityTest n chainType then
        (if chainType = CUNNINGHAM_CHAIN_1 then
           (if \<not> fermatPrimalityTest (n * 2 + 1) \<or> \<not> isProbablePrime (n * 2 + 1)
            then Inr (len + 1 - 1)
            else if len + 1 \<ge> target then Inr (len + 1)
            else findCunninghamChain_loop isProbablePrime chainType target (n * 2 + 1) (len + 1))
         else if chainType = CUNNINGHAM_CHAIN_2 then
           (if \<not> fermatPrimalityTest (n * 2 - 1) \<or> \<not> isProbablePrime (n * 2 - 1)
            then Inr (len + 1 - 1)
            else if len + 1 \<ge> target then Inr (len + 1)
            else findCunninghamChain_loop isProbablePrime chainType target (n * 2 - 1) (len + 1))
         else Inl InvalidChainType)
      else Inr len)"
  by pat_completeness auto
termination
  by (relation "measure (\<lambda>(isProbablePrime, chainType, target, n, len). nat (target - len))") auto

declare findCunninghamChain_loop.simps [simp del]

definition findCunninghamChain :: "(int \<Rightarrow> bool) \<Rightarrow> int \<Rightarrow> string \<Rightarrow> int \<Rightarrow> error + int" where
  "findCunninghamChain isProbablePrime n chainType target =
     (if \<not> fermatPrimalityTest n \<or> \<not> isProbablePrime n then Inr 0
      else if 1 \<ge> target then Inr 1
      else findCunninghamChain_loop isProbablePrime chainType target n 1)"

record chainResult =
  chainLength :: int
  chainType :: string

definition findPrimeChain :: "(int \<Rightarrow> bool) \<Rightarrow> int \<Rightarrow> int \<Rightarrow> error + chainResult" where
  "findPrimeChain isProbablePrime origin target =
     (case findCunninghamChain isProbablePrime (origin - 1) CUNNINGHAM_CHAIN_1 target of
        Inl e \<Rightarrow> Inl e
      | Inr firstChainLength \<Rightarrow>
     (case findCunninghamChain isProbablePrime (origin + 1) CUNNINGHAM_CHAIN_2 target of
        Inl e \<Rightarrow> Inl e
      | Inr secondChainLength \<Rightarrow>
        (let bitwinChainLength =
               (if firstChainLength > secondChainLength then secondChainLength * 2 + 1
                else firstChainLength * 2)
         in if firstChainLength \<ge> secondChainLength \<and> firstChainLength \<ge> bitwinChainLength
            then Inr \<lparr>chainLength = firstChainLength, chainType = CUNNINGHAM_CHAIN_1\<rparr>
            else if secondChainLength \<ge> firstChainLength \<and> secondChainLength \<ge> bitwinChainLength
            then Inr \<lparr>chainLength = secondChainLength, chainType = CUNNINGHAM_CHAIN_2\<rparr>
            else Inr \<lparr>chainLength = bitwinChainLength, chainType = BITWIN_CHAIN\<rparr>)))"

section \<open>The reference definitions of the specification\<close>

text \<open>
  Sections 4.1 to 4.3 of the specification, written from its words: the chain kinds that
  reach the searcher, the primality tester, the chain criterion and the chain searcher.
  They are compared with the program's functions below.
\<close>

datatype ChainKind = First | Second

fun tagOf :: "ChainKind \<Rightarrow> string" where
  "tagOf First = CUNNINGHAM_CHAIN_1"
| "tagOf Second = CUNNINGHAM_CHAIN_2"

definition fermatTest_spec :: "int \<Rightarrow> bool" where
  "fermatTest_spec n = (n = 2 \<or> 2 ^ nat (n - 1) mod n = 1)"

definition PrimalityTester_spec :: "(int \<Rightarrow> bool) \<Rightarrow> int \<Rightarrow> bool" where
  "PrimalityTester_spec stronger n = (fermatTest_spec n \<and> stronger n)"

fun ChainCriterion_spec :: "int \<Rightarrow> ChainKind \<Rightarrow> bool" where
  "ChainCriterion_spec p First =
     (if 0 < p \<and> p < 4 then True
      else if p = 4 then False
      else if p mod 4 = 1 then (2 ^ nat p + 1) mod (2 * p + 1) = 0
      else if p mod 4 = 3 then (2 ^ nat p - 1) mod (2 * p + 1) = 0
      else False)"
| "ChainCriterion_spec p Second =
     (if 0 < p \<and> p < 4 then True
      else if p = 4 then True
      else if p mod 4 = 1 then (2 ^ nat (p - 1) - 1) mod (2 * p - 1) = 0
      else if p mod 4 = 3 then (2 ^ nat (p - 1) + 1) mod (2 * p - 1) = 0
      else False)"

declare ChainCriterion_spec.simps [simp del]

fun nextCandidate_spec :: "ChainKind \<Rightarrow> int \<Rightarrow> int" where
  "nextCandidate_spec First n = 2 * n + 1"
| "nextCandidate_spec Second n = 2 * n - 1"

function findChainLoop_spec ::
  "(int \<Rightarrow> bool) \<Rightarrow> ChainKind \<Rightarrow> int \<Rightarrow> int \<Rightarrow> int \<Rightarrow> int" where
  "findChainLoop_spec stronger kind target n len =
     (if ChainCriterion_spec n kind then
        (if \<not> PrimalityTester_spec stronger (nextCandidate_spec kind n) then len
         else if len + 1 \<ge> target then len + 1
         else findChainLoop_spec stronger kind target (nextCandidate_spec kind n) (len + 1))
      else len)"
  by pat_completeness auto
termination
  by (relation "measure (\<lambda>(stronger, kind, target, n, len). nat (target - len))") auto

declare findChainLoop_spec.simps [simp del]

definition findChain_spec :: "(int \<Rightarrow> bool) \<Rightarrow> int \<Rightarrow> ChainKind \<Rightarrow> int \<Rightarrow> int" where
  "findChain_spec stronger n kind target =
     (if \<not> PrimalityTester_spec stronger n then 0
      else if 1 \<ge> target then 1
      else findChainLoop_spec stronger kind target n 1)"

text \<open>
  The numbers a chain search confirms, as a list: \<open>chainMembers kind n k\<close> is \<open>n\<close> followed
  by \<open>k - 1\<close> steps of the kind's recurrence, and \<open>bitwinMembers a b k\<close> interleaves
  \<open>k\<close> members of the first kind from \<open>a\<close> with \<open>k\<close> members of the second kind
  from \<open>b\<close>.
\<close>

definition chainMembers :: "ChainKind \<Rightarrow> int \<Rightarrow> nat \<Rightarrow> int list" where
  "chainMembers kind n k = map (\<lambda>i. (nextCandidate_spec kind ^^ i) n) [0..<k]"

definition bitwinMembers :: "int \<Rightarrow> int \<Rightarrow> nat \<Rightarrow> int list" where
  "bitwinMembers a b k =
     concat (map (\<lambda>i. [(nextCandidate_spec First ^^ i) a, (nextCandidate_spec Second ^^ i) b])
               [0..<k])"

section \<open>An exact primality test for the examples\<close>

text \<open>
  Where a statement is evaluated on numbers, the library test is instantiated with trial
  division, which accepts exactly the primes.
\<close>

function noDivisorFrom :: "int \<Rightarrow> int \<Rightarrow> bool" where
  "noDivisorFrom d n =
     (if n \<le> d then True
      else if n mod d = 0 then False
      else noDivisorFrom (d + 1) n)"
  by pat_completeness auto
termination
  by (relation "measure (\<lambda>(d, n). nat (n - d))") auto

declare noDivisorFrom.simps [simp del]

definition trialDivision :: "int \<Rightarrow> bool" where
  "trialDivision n = (2 \<le> n \<and> noDivisorFrom 2 n)"

text \<open>
  A 256-bit header hash for the examples: \<open>exampleHash * 562 + 1\<close> is a prime factor of
  \<open>2 ^ 281 - 1\<close>, so that the Fermat test on it is decided by one modular power.
\<close>

definition exampleHash :: int where
  "exampleHash =
     85425649987638172316477657069536190113411515847494085310304393158772239803239"

section \<open>The class PrimeBlock\<close>

text \<open>
  \<open>header\<close> stands for the fields that \<^verbatim>\<open>hashHeader\<close> serialises besides the nonce
  (block number, timestamp, transactions or balances, previous hash, reward address);
  the parameter \<open>hashHeader\<close> of the functions below is
  \<^verbatim>\<open>new BigInteger(this.hashHeader(), 16)\<close> as a function of these fields and of
  \<open>primeNonce\<close>. The proof fields \<open>primeMultiplier\<close>, \<open>primeChainLength\<close> and
  \<open>primeChainType\<close> are not among its arguments.
\<close>

record 'h PrimeBlock =
  header :: 'h
  target :: int
  primeNonce :: int
  primeMultiplier :: int
  primeChainLength :: int
  primeChainType :: string

definition newPrimeBlock :: "'h \<Rightarrow> int \<Rightarrow> 'h PrimeBlock" where
  \<comment> \<open>the constructor\<close>
  "newPrimeBlock hdr tgt =
     \<lparr>header = hdr, target = tgt, primeNonce = 0, primeMultiplier = 2,
      primeChainLength = 0, primeChainType = []\<rparr>"

definition hasValidProof ::
  "('h \<Rightarrow> int \<Rightarrow> int) \<Rightarrow> (int \<Rightarrow> bool) \<Rightarrow> 'h PrimeBlock \<Rightarrow> error + bool" where
  "hasValidProof hashHeader isProbablePrime b =
     (let blockHeaderHash = hashHeader (header b) (primeNonce b) in
      if blockHeaderHash < BLOCK_HEADER_HASH_MIN then Inr False
      else if primeChainLength b < target b then Inr False
      else if primeMultiplier b < 2 then Inr False
      else
        (let origin = blockHeaderHash * primeMultiplier b in
         if primeChainType b = CUNNINGHAM_CHAIN_1 then
           (case findCunninghamChain isProbablePrime (origin - 1) CUNNINGHAM_CHAIN_1 (target b) of
              Inl e \<Rightarrow> Inl e
            | Inr testLength \<Rightarrow> if testLength < target b then Inr False else Inr True)
         else if primeChainType b = CUNNINGHAM_CHAIN_2 then
           (case findCunninghamChain isProbablePrime (origin + 1) CUNNINGHAM_CHAIN_2 (target b) of
              Inl e \<Rightarrow> Inl e
            | Inr testLength \<Rightarrow> if testLength < target b then Inr False else Inr True)
         else if primeChainType b = BITWIN_CHAIN then
           (case findCunninghamChain isProbablePrime (origin - 1) CUNNINGHAM_CHAIN_1
                   (- ((- target b) div 2)) of
              Inl e \<Rightarrow> Inl e
            | Inr firstLength \<Rightarrow>
           (case findCunninghamChain isProbablePrime (origin + 1) CUNNINGHAM_CHAIN_2
                   (target b div 2) of
              Inl e \<Rightarrow> Inl e
            | Inr secondLength \<Rightarrow>
                if firstLength + secondLength < target b then Inr False else Inr True))
         else Inr False))"

section \<open>The mining search of PrimeMiner\<close>

text \<open>
  One iteration of the second loop of \<^verbatim>\<open>findProof\<close>. The flag says whether a proof was
  recorded, after which the loop is left and a new block is constructed.
\<close>

definition findProof_round ::
  "('h \<Rightarrow> int \<Rightarrow> int) \<Rightarrow> (int \<Rightarrow> bool) \<Rightarrow> 'h PrimeBlock \<Rightarrow> error + bool \<times> 'h PrimeBlock" where
  "findProof_round hashHeader isProbablePrime b =
     (let blockHeaderHash = hashHeader (header b) (primeNonce b);
          multiplier = BI_BASE_PRIMORIAL * primeMultiplier b in
      case findPrimeChain isProbablePrime (blockHeaderHash * multiplier) (target b) of
        Inl e \<Rightarrow> Inl e
      | Inr r \<Rightarrow>
          if chainLength r \<ge> target b
          then Inr (True, b\<lparr>primeMultiplier := multiplier,
                             primeChainLength := chainLength r,
                             primeChainType := chainType r\<rparr>)
          else Inr (False, b\<lparr>primeMultiplier := primeMultiplier b + 1\<rparr>))"

text \<open>
  The states of the block under search: a constructed block, a nonce increment of the
  first loop of \<^verbatim>\<open>findProof\<close> (taken while the header hash is below the minimum), and an
  iteration of the second loop.
\<close>

inductive findProof_state ::
  "('h \<Rightarrow> int \<Rightarrow> int) \<Rightarrow> (int \<Rightarrow> bool) \<Rightarrow> 'h PrimeBlock \<Rightarrow> bool"
  for hashHeader :: "'h \<Rightarrow> int \<Rightarrow> int" and isProbablePrime :: "int \<Rightarrow> bool" where
  constructed: "findProof_state hashHeader isProbablePrime (newPrimeBlock hdr tgt)"
| nonce:
    "findProof_state hashHeader isProbablePrime b \<Longrightarrow>
     hashHeader (header b) (primeNonce b) < BLOCK_HEADER_HASH_MIN \<Longrightarrow>
     findProof_state hashHeader isProbablePrime (b\<lparr>primeNonce := primeNonce b + 1\<rparr>)"
| round:
    "findProof_state hashHeader isProbablePrime b \<Longrightarrow>
     \<not> hashHeader (header b) (primeNonce b) < BLOCK_HEADER_HASH_MIN \<Longrightarrow>
     findProof_round hashHeader isProbablePrime b = Inr (found, b') \<Longrightarrow>
     findProof_state hashHeader isProbablePrime b'"

section \<open>The chain expansion of buildPrimeChains\<close>

function buildChain_firstLoop :: "int \<Rightarrow> int \<Rightarrow> int \<Rightarrow> int list \<Rightarrow> int list" where
  "buildChain_firstLoop i len origin primeChain =
     (if i < len
      then buildChain_firstLoop (i + 1) len (origin * 2 + 1) (primeChain @ [origin * 2 + 1])
      else primeChain)"
  by pat_completeness auto
termination
  by (relation "measure (\<lambda>(i, len, origin, primeChain). nat (len - i))") auto

function buildChain_secondLoop :: "int \<Rightarrow> int \<Rightarrow> int \<Rightarrow> int list \<Rightarrow> int list" where
  "buildChain_secondLoop i len origin primeChain =
     (if i < len
      then buildChain_secondLoop (i + 1) len (origin * 2 - 1) (primeChain @ [origin * 2 - 1])
      else primeChain)"
  by pat_completeness auto
termination
  by (relation "measure (\<lambda>(i, len, origin, primeChain). nat (len - i))") auto

function buildChain_bitwinLoop :: "int \<Rightarrow> int \<Rightarrow> int \<Rightarrow> int \<Rightarrow> int list \<Rightarrow> int list" where
  "buildChain_bitwinLoop i len first second primeChain =
     (if i < len then
        (if i + 1 = len
         then buildChain_bitwinLoop (i + 2) len ((first * 2 + 1) * 2 + 1) (second * 2 - 1)
                (primeChain @ [first * 2 + 1] @ [second * 2 - 1] @ [(first * 2 + 1) * 2 + 1])
         else buildChain_bitwinLoop (i + 2) len (first * 2 + 1) (second * 2 - 1)
                (primeChain @ [first * 2 + 1] @ [second * 2 - 1]))
      else primeChain)"
  by pat_completeness auto
termination
  by (relation "measure (\<lambda>(i, len, first, second, primeChain). nat (len - i))") auto

declare buildChain_firstLoop.simps [simp del]

declare buildChain_secondLoop.simps [simp del]

declare buildChain_bitwinLoop.simps [simp del]

text \<open>
  The three \<^verbatim>\<open>for\<close> loops of \<^verbatim>\<open>buildChain\<close> are the functions above.
  \<open>buildChainNumbers\<close> is the array \<^verbatim>\<open>primeChain\<close> that \<^verbatim>\<open>buildChain\<close> fills, before each
  number is printed; \<^verbatim>\<open>process.exit()\<close> is an error value.
\<close>

definition buildChainNumbers :: "int \<Rightarrow> int \<Rightarrow> string \<Rightarrow> error + int list" where
  "buildChainNumbers origin len ct =
     (if len < 1 then Inl InvalidChainLength
      else if ct = CUNNINGHAM_CHAIN_1 then
        Inr (buildChain_firstLoop 1 len (origin - 1) [origin - 1])
      else if ct = CUNNINGHAM_CHAIN_2 then
        Inr (buildChain_secondLoop 1 len (origin + 1) [origin + 1])
      else if ct = BITWIN_CHAIN then
        Inr (buildChain_bitwinLoop 2 len (origin - 1) (origin + 1) ([origin - 1] @ [origin + 1]))
      else Inl InvalidChainType)"

fun digitsOf :: "nat \<Rightarrow> string" where
  "digitsOf n =
     (if n < 10 then [''0123456789'' ! n]
      else digitsOf (n div 10) @ [''0123456789'' ! (n mod 10)])"

declare digitsOf.simps [simp del]

definition toString :: "int \<Rightarrow> string" where
  "toString n = (if n < 0 then CHR ''-'' # digitsOf (nat (- n)) else digitsOf (nat n))"

fun joinComma :: "string list \<Rightarrow> string" where
  "joinComma [] = []"
| "joinComma [s] = s"
| "joinComma (s # t # ts) = s @ CHR '','' # joinComma (t # ts)"

definition buildChain :: "int \<Rightarrow> int \<Rightarrow> string \<Rightarrow> error + string" where
  "buildChain origin len ct =
     (case buildChainNumbers origin len ct of
        Inl e \<Rightarrow> Inl e
      | Inr primeChain \<Rightarrow> Inr (joinComma (map toString primeChain)))"

section \<open>Basic facts\<close>

lemma tags_distinct [simp]:
  "CUNNINGHAM_CHAIN_1 \<noteq> CUNNINGHAM_CHAIN_2" "CUNNINGHAM_CHAIN_2 \<noteq> CUNNINGHAM_CHAIN_1"
  "CUNNINGHAM_CHAIN_1 \<noteq> BITWIN_CHAIN" "BITWIN_CHAIN \<noteq> CUNNINGHAM_CHAIN_1"
  "CUNNINGHAM_CHAIN_2 \<noteq> BITWIN_CHAIN" "BITWIN_CHAIN \<noteq> CUNNINGHAM_CHAIN_2"
  by (simp_all add: CUNNINGHAM_CHAIN_1_def CUNNINGHAM_CHAIN_2_def BITWIN_CHAIN_def)

lemma hash_min_value: "BLOCK_HEADER_HASH_MIN = 2 ^ 255"
  by (simp add: BLOCK_HEADER_HASH_MIN_def)

lemma fermat_spec: "fermatPrimalityTest n = fermatTest_spec n"
  by (simp add: fermatPrimalityTest_def modPow_def fermatTest_spec_def)

lemma criterion_first:
  "eulerLagrangePrimalityTest p CUNNINGHAM_CHAIN_1 = ChainCriterion_spec p First"
  by (simp add: eulerLagrangePrimalityTest_def ChainCriterion_spec.simps Let_def pow_def
        mult.commute)

lemma criterion_second:
  "eulerLagrangePrimalityTest p CUNNINGHAM_CHAIN_2 = ChainCriterion_spec p Second"
  by (simp add: eulerLagrangePrimalityTest_def ChainCriterion_spec.simps Let_def pow_def
        mult.commute)

lemma criterion_other:
  "ct \<noteq> CUNNINGHAM_CHAIN_1 \<Longrightarrow> ct \<noteq> CUNNINGHAM_CHAIN_2 \<Longrightarrow>
   eulerLagrangePrimalityTest p ct = (0 < p \<and> p < 4)"
  by (simp add: eulerLagrangePrimalityTest_def Let_def)

subsection \<open>The searcher against its reference\<close>

lemma findCunninghamChain_loop_spec:
  "findCunninghamChain_loop ipp (tagOf k) T n len = Inr (findChainLoop_spec ipp k T n len)"
proof (induction ipp k T n len rule: findChainLoop_spec.induct)
  case (1 stronger kind T n len)
  show ?case
  proof (cases kind)
    case First
    with 1 show ?thesis
      by (subst findCunninghamChain_loop.simps, subst findChainLoop_spec.simps)
         (simp add: criterion_first fermat_spec PrimalityTester_spec_def mult.commute)
  next
    case Second
    with 1 show ?thesis
      by (subst findCunninghamChain_loop.simps, subst findChainLoop_spec.simps)
         (simp add: criterion_second fermat_spec PrimalityTester_spec_def mult.commute)
  qed
qed

lemma findChain_tagOf:
  "findCunninghamChain ipp n (tagOf k) T = Inr (findChain_spec ipp n k T)"
  by (simp add: findCunninghamChain_def findChain_spec_def findCunninghamChain_loop_spec fermat_spec
        PrimalityTester_spec_def)

lemma findChain_first:
  "findCunninghamChain ipp n CUNNINGHAM_CHAIN_1 T = Inr (findChain_spec ipp n First T)"
  using findChain_tagOf [of ipp n First T] by simp

lemma findChain_second:
  "findCunninghamChain ipp n CUNNINGHAM_CHAIN_2 T = Inr (findChain_spec ipp n Second T)"
  using findChain_tagOf [of ipp n Second T] by simp

lemma loop_bound:
  "len < T \<Longrightarrow>
   len \<le> findChainLoop_spec ipp k T n len \<and> findChainLoop_spec ipp k T n len \<le> T"
proof (induction ipp k T n len rule: findChainLoop_spec.induct)
  case (1 stronger kind T n len)
  show ?case
    using 1 by (subst (1 2) findChainLoop_spec.simps) auto
qed

lemma findChain_bound:
  "1 \<le> T \<Longrightarrow> 0 \<le> findChain_spec ipp n k T \<and> findChain_spec ipp n k T \<le> T"
  using loop_bound [of 1 T ipp k n] by (auto simp: findChain_spec_def)

lemma findPrimeChain_eq:
  "findPrimeChain ipp origin T =
     (let L1 = findChain_spec ipp (origin - 1) First T;
          L2 = findChain_spec ipp (origin + 1) Second T;
          Lbw = (if L1 > L2 then 2 * L2 + 1 else 2 * L1)
      in Inr (if L1 \<ge> L2 \<and> L1 \<ge> Lbw
              then \<lparr>chainLength = L1, chainType = CUNNINGHAM_CHAIN_1\<rparr>
              else if L2 \<ge> L1 \<and> L2 \<ge> Lbw
              then \<lparr>chainLength = L2, chainType = CUNNINGHAM_CHAIN_2\<rparr>
              else \<lparr>chainLength = Lbw, chainType = BITWIN_CHAIN\<rparr>))"
  by (simp add: findPrimeChain_def findChain_first findChain_second Let_def mult.commute)

subsection \<open>Evaluation on small numbers\<close>

lemmas search_eval =
  findCunninghamChain_def findCunninghamChain_loop.simps fermatPrimalityTest_def modPow_def pow_def
  eulerLagrangePrimalityTest_def trialDivision_def noDivisorFrom.simps

lemma chain_from_19:
  "findCunninghamChain trialDivision 19 CUNNINGHAM_CHAIN_2 2 = Inr 2"
  "findCunninghamChain trialDivision 19 CUNNINGHAM_CHAIN_2 3 = Inr 3"
  "findCunninghamChain trialDivision 19 CUNNINGHAM_CHAIN_2 5 = Inr 3"
  by (simp_all add: search_eval)

lemma chain_from_17:
  "findCunninghamChain trialDivision 17 CUNNINGHAM_CHAIN_1 3 = Inr 1"
  by (simp add: search_eval)

section \<open>The primality tests\<close>

text \<open>
  C7. For every big integer \<open>n\<close>, \<^verbatim>\<open>fermatPrimalityTest(n)\<close> is true exactly when \<open>n = 2\<close>
  or \<open>2 ^ (n - 1) mod n = 1\<close>; it accepts 2 and 97 and rejects 4. (For \<open>n \<le> 0\<close> the
  exponent \<open>n - 1\<close> is negative and is read as zero.)
\<close>

theorem fermatPrimalityTest_iff:
  "(fermatPrimalityTest n \<longleftrightarrow> n = 2 \<or> 2 ^ nat (n - 1) mod n = 1)
   \<and> fermatPrimalityTest 2 \<and> \<not> fermatPrimalityTest 4 \<and> fermatPrimalityTest 97"
  by (simp add: fermatPrimalityTest_def modPow_def)

text \<open>
  C3. For every \<open>p > 0\<close>, \<^verbatim>\<open>eulerLagrangePrimalityTest\<close> follows the case analysis of
  section 4.2: true below 4; at 4 true for the second kind only; above 4, with
  \<open>r = p mod 4\<close>, the congruence of the kind for \<open>r = 1\<close> and for \<open>r = 3\<close>, and false for
  every other \<open>r\<close>. In particular it holds at 1, 2 and 3 for the first kind and at 4 for
  the second kind, and fails at 4 for the first kind.
\<close>

theorem eulerLagrange_case_analysis:
  assumes "0 < p"
  shows
    "(eulerLagrangePrimalityTest p CUNNINGHAM_CHAIN_1 \<longleftrightarrow>
        (if p < 4 then True
         else if p = 4 then False
         else if p mod 4 = 1 then (2 ^ nat p + 1) mod (2 * p + 1) = 0
         else if p mod 4 = 3 then (2 ^ nat p - 1) mod (2 * p + 1) = 0
         else False))
     \<and> (eulerLagrangePrimalityTest p CUNNINGHAM_CHAIN_2 \<longleftrightarrow>
        (if p < 4 then True
         else if p = 4 then True
         else if p mod 4 = 1 then (2 ^ nat (p - 1) - 1) mod (2 * p - 1) = 0
         else if p mod 4 = 3 then (2 ^ nat (p - 1) + 1) mod (2 * p - 1) = 0
         else False))
     \<and> (4 < p \<and> (p mod 4 = 0 \<or> p mod 4 = 2) \<longrightarrow>
          \<not> eulerLagrangePrimalityTest p CUNNINGHAM_CHAIN_1 \<and>
          \<not> eulerLagrangePrimalityTest p CUNNINGHAM_CHAIN_2)
     \<and> eulerLagrangePrimalityTest 1 CUNNINGHAM_CHAIN_1
     \<and> eulerLagrangePrimalityTest 2 CUNNINGHAM_CHAIN_1
     \<and> eulerLagrangePrimalityTest 3 CUNNINGHAM_CHAIN_1
     \<and> eulerLagrangePrimalityTest 4 CUNNINGHAM_CHAIN_2
     \<and> \<not> eulerLagrangePrimalityTest 4 CUNNINGHAM_CHAIN_1"
proof -
  have small: "eulerLagrangePrimalityTest 1 CUNNINGHAM_CHAIN_1"
    "eulerLagrangePrimalityTest 2 CUNNINGHAM_CHAIN_1"
    "eulerLagrangePrimalityTest 3 CUNNINGHAM_CHAIN_1"
    "eulerLagrangePrimalityTest 4 CUNNINGHAM_CHAIN_2"
    "\<not> eulerLagrangePrimalityTest 4 CUNNINGHAM_CHAIN_1"
    by (simp_all add: eulerLagrangePrimalityTest_def)
  from assms show ?thesis
    by (simp add: small criterion_first criterion_second ChainCriterion_spec.simps)
qed

theorem eulerLagrange_case_analysis_witness:
  "(0::int) < 5 \<and> eulerLagrangePrimalityTest 5 CUNNINGHAM_CHAIN_1
   \<and> \<not> eulerLagrangePrimalityTest 5 CUNNINGHAM_CHAIN_2
   \<and> \<not> eulerLagrangePrimalityTest 6 CUNNINGHAM_CHAIN_1
   \<and> \<not> eulerLagrangePrimalityTest 6 CUNNINGHAM_CHAIN_2
   \<and> eulerLagrangePrimalityTest 19 CUNNINGHAM_CHAIN_2"
  using eulerLagrange_case_analysis [of 5] eulerLagrange_case_analysis [of 6]
    eulerLagrange_case_analysis [of 19]
  by simp

section \<open>The chain searcher\<close>

text \<open>
  C2. For every \<open>n\<close>, every target and both Cunningham chain types,
  \<^verbatim>\<open>findCunninghamChain\<close> returns what the reference searcher of section 4.3 returns:
  0 when \<open>n\<close> fails the primality pair, else 1 when the target is met at once, else the
  length reached by the loop that steps while the criterion holds, rolls the increment
  back when the new member fails the primality pair and leaves when the target is met.
\<close>

theorem findCunninghamChain_refines_spec:
  "findCunninghamChain isProbablePrime n CUNNINGHAM_CHAIN_1 T =
     Inr (findChain_spec isProbablePrime n First T)
   \<and> findCunninghamChain isProbablePrime n CUNNINGHAM_CHAIN_2 T =
     Inr (findChain_spec isProbablePrime n Second T)"
  by (simp add: findChain_first findChain_second)

theorem findCunninghamChain_refines_spec_witness:
  "findChain_spec trialDivision 19 Second 3 = 3
   \<and> findChain_spec trialDivision 17 First 3 = 1
   \<and> findCunninghamChain trialDivision 19 CUNNINGHAM_CHAIN_2 3 = Inr 3"
  using findCunninghamChain_refines_spec [of trialDivision 19 3]
    findCunninghamChain_refines_spec [of trialDivision 17 3]
  by (simp add: chain_from_19 chain_from_17)

section \<open>The chain selector\<close>

text \<open>
  C4. For every origin and target, \<^verbatim>\<open>findPrimeChain\<close> takes \<open>L1\<close> from the first kind at
  \<open>origin - 1\<close> and \<open>L2\<close> from the second kind at \<open>origin + 1\<close>, sets the bi-twin length
  to \<open>2 * L2 + 1\<close> when \<open>L1 > L2\<close> and to \<open>2 * L1\<close> otherwise (twice the smaller length,
  plus one exactly when the first chain is the longer), and returns the first kind when
  \<open>L1\<close> is at least both other lengths, else the second kind when \<open>L2\<close> is, else the
  bi-twin chain.
\<close>

theorem findPrimeChain_selection:
  "\<exists>L1 L2 Lbw.
     findCunninghamChain isProbablePrime (origin - 1) CUNNINGHAM_CHAIN_1 T = Inr L1
     \<and> findCunninghamChain isProbablePrime (origin + 1) CUNNINGHAM_CHAIN_2 T = Inr L2
     \<and> Lbw = (if L1 > L2 then 2 * L2 + 1 else 2 * L1)
     \<and> Lbw = 2 * min L1 L2 + (if L1 > L2 then 1 else 0)
     \<and> findPrimeChain isProbablePrime origin T =
         Inr (if L1 \<ge> L2 \<and> L1 \<ge> Lbw
              then \<lparr>chainLength = L1, chainType = CUNNINGHAM_CHAIN_1\<rparr>
              else if L2 \<ge> L1 \<and> L2 \<ge> Lbw
              then \<lparr>chainLength = L2, chainType = CUNNINGHAM_CHAIN_2\<rparr>
              else \<lparr>chainLength = Lbw, chainType = BITWIN_CHAIN\<rparr>)"
  by (simp add: findPrimeChain_eq findChain_first findChain_second Let_def min_def)

theorem findPrimeChain_selection_witness:
  "findCunninghamChain trialDivision (18 - 1) CUNNINGHAM_CHAIN_1 3 = Inr 1
   \<and> findCunninghamChain trialDivision (18 + 1) CUNNINGHAM_CHAIN_2 3 = Inr 3
   \<and> findPrimeChain trialDivision 18 3 =
       Inr \<lparr>chainLength = 3, chainType = CUNNINGHAM_CHAIN_2\<rparr>"
  using findPrimeChain_selection [of trialDivision 18 3]
  by (simp add: chain_from_19 chain_from_17)

section \<open>Errors\<close>

lemma findCunninghamChain_throws:
  "findCunninghamChain ipp n ct T = Inl e \<longleftrightarrow>
     e = InvalidChainType \<and> ct \<noteq> CUNNINGHAM_CHAIN_1 \<and> ct \<noteq> CUNNINGHAM_CHAIN_2 \<and>
     fermatPrimalityTest n \<and> ipp n \<and> 1 < T \<and> 0 < n \<and> n < 4"
proof (cases "ct = CUNNINGHAM_CHAIN_1 \<or> ct = CUNNINGHAM_CHAIN_2")
  case True
  then show ?thesis by (auto simp: findChain_first findChain_second)
next
  case False
  then have loop: "findCunninghamChain_loop ipp ct T n 1 = (if 0 < n \<and> n < 4 then Inl InvalidChainType else Inr 1)"
    by (subst findCunninghamChain_loop.simps) (simp add: criterion_other)
  from False show ?thesis
    by (auto simp: findCunninghamChain_def loop)
qed

lemma buildChainNumbers_exits:
  "buildChainNumbers origin len ct = Inl e \<longleftrightarrow>
     (len < 1 \<and> e = InvalidChainLength) \<or>
     (1 \<le> len \<and> ct \<noteq> CUNNINGHAM_CHAIN_1 \<and> ct \<noteq> CUNNINGHAM_CHAIN_2 \<and> ct \<noteq> BITWIN_CHAIN \<and>
      e = InvalidChainType)"
  by (auto simp: buildChainNumbers_def)

lemma buildChain_exits:
  "buildChain origin len ct = Inl e \<longleftrightarrow> buildChainNumbers origin len ct = Inl e"
  by (simp add: buildChain_def split: sum.splits)

section \<open>The verifier and the mining search\<close>

lemma hasValidProof_accepts:
  assumes "hasValidProof H ipp b = Inr True"
  shows "2 ^ 255 \<le> H (header b) (primeNonce b) \<and> target b \<le> primeChainLength b \<and>
     2 \<le> primeMultiplier b \<and>
     (primeChainType b = CUNNINGHAM_CHAIN_1 \<and>
        (\<exists>L. findCunninghamChain ipp (H (header b) (primeNonce b) * primeMultiplier b - 1)
                CUNNINGHAM_CHAIN_1 (target b) = Inr L \<and> target b \<le> L)
      \<or> primeChainType b = CUNNINGHAM_CHAIN_2 \<and>
        (\<exists>L. findCunninghamChain ipp (H (header b) (primeNonce b) * primeMultiplier b + 1)
                CUNNINGHAM_CHAIN_2 (target b) = Inr L \<and> target b \<le> L)
      \<or> primeChainType b = BITWIN_CHAIN \<and>
        (\<exists>L1 L2.
            findCunninghamChain ipp (H (header b) (primeNonce b) * primeMultiplier b - 1)
              CUNNINGHAM_CHAIN_1 ((target b + 1) div 2) = Inr L1 \<and>
            findCunninghamChain ipp (H (header b) (primeNonce b) * primeMultiplier b + 1)
              CUNNINGHAM_CHAIN_2 (target b div 2) = Inr L2 \<and>
            target b \<le> L1 + L2))"
proof -
  have ceil: "- ((- target b) div 2) = (target b + 1) div 2"
    by presburger
  from assms show ?thesis
    unfolding ceil [symmetric]
    by (auto simp: hasValidProof_def Let_def hash_min_value split: if_splits sum.splits)
qed

lemma hasValidProof_unrecognized:
  "primeChainType b \<noteq> CUNNINGHAM_CHAIN_1 \<Longrightarrow> primeChainType b \<noteq> CUNNINGHAM_CHAIN_2 \<Longrightarrow>
   primeChainType b \<noteq> BITWIN_CHAIN \<Longrightarrow> hasValidProof H ipp b = Inr False"
  by (simp add: hasValidProof_def Let_def)

lemma hasValidProof_multiplier:
  "primeMultiplier b < 2 \<Longrightarrow> hasValidProof H ipp b = Inr False"
  by (simp add: hasValidProof_def Let_def)

lemma findProof_round_multiplier:
  "findProof_round H ipp b = Inr (found, b') \<Longrightarrow>
   (found \<and> primeMultiplier b' = 210 * primeMultiplier b) \<or>
   (\<not> found \<and> primeMultiplier b' = primeMultiplier b + 1)"
  by (auto simp: findProof_round_def Let_def BI_BASE_PRIMORIAL_def split: sum.splits if_splits)

lemma findProof_state_multiplier: "findProof_state H ipp b \<Longrightarrow> 2 \<le> primeMultiplier b"
proof (induction rule: findProof_state.induct)
  case (constructed hdr tgt)
  then show ?case by (simp add: newPrimeBlock_def)
next
  case (nonce b)
  then show ?case by simp
next
  case (round b found b')
  from findProof_round_multiplier [OF round.hyps(3)] round.IH show ?case by auto
qed

subsection \<open>A header hash of 256 bits\<close>

lemma fermat_by_order:
  assumes "(2::int) ^ j mod N = 1" and "nat (N - 1) = j * K"
  shows "fermatPrimalityTest N"
proof -
  have "(2::int) ^ nat (N - 1) mod N = ((2 ^ j) ^ K) mod N"
    by (simp only: assms(2) power_mult)
  also have "\<dots> = ((2 ^ j mod N) ^ K) mod N"
    by (simp only: power_mod)
  also have "\<dots> = 1 mod N"
    by (simp only: assms(1) power_one)
  also have "\<dots> = 1"
    using assms(1) by (metis mod_mod_trivial)
  finally have "fermatTest_spec N"
    unfolding fermatTest_spec_def by (rule disjI2)
  then show ?thesis by (simp only: fermat_spec)
qed

lemma examplePrime_fermat: "fermatPrimalityTest (exampleHash * 562 + 1)"
proof (rule fermat_by_order)
  show "(2::int) ^ 281 mod (exampleHash * 562 + 1) = 1"
    by (simp add: exampleHash_def)
  show "nat (exampleHash * 562 + 1 - 1) =
      281 * 170851299975276344632955314139072380226823031694988170620608786317544479606478"
    by (simp add: exampleHash_def)
qed

lemma exampleHash_large: "\<not> exampleHash < BLOCK_HEADER_HASH_MIN"
  by (simp add: exampleHash_def hash_min_value)

lemma rejected_start: "\<not> ipp n \<Longrightarrow> findCunninghamChain ipp n ct T = Inr 0"
  by (simp add: findCunninghamChain_def)

section \<open>Error propagation\<close>

text \<open>
  C8. The primality tests return booleans and contain no \<^verbatim>\<open>throw\<close>, which their types
  record. \<^verbatim>\<open>findCunninghamChain\<close> with a Cunningham chain type and \<^verbatim>\<open>findPrimeChain\<close>
  never raise: a number that fails the primality pair gives the length 0, and an origin
  with no chain on either side gives a result of length 0. \<^verbatim>\<open>findCunninghamChain\<close> raises
  only for another chain type, inside its loop; \<^verbatim>\<open>buildChain\<close> stops only for a chain
  length below 1 or an unrecognized chain type.
\<close>

theorem error_policy:
  "(\<exists>L. findCunninghamChain isProbablePrime n CUNNINGHAM_CHAIN_1 T = Inr L)
   \<and> (\<exists>L. findCunninghamChain isProbablePrime n CUNNINGHAM_CHAIN_2 T = Inr L)
   \<and> (\<exists>r. findPrimeChain isProbablePrime origin T = Inr r)
   \<and> (\<not> fermatPrimalityTest n \<or> \<not> isProbablePrime n \<longrightarrow>
        findCunninghamChain isProbablePrime n ct T = Inr 0)
   \<and> (\<not> isProbablePrime (origin - 1) \<and> \<not> isProbablePrime (origin + 1) \<longrightarrow>
        findPrimeChain isProbablePrime origin T =
          Inr \<lparr>chainLength = 0, chainType = CUNNINGHAM_CHAIN_1\<rparr>)
   \<and> (findCunninghamChain isProbablePrime n ct T = Inl e \<longleftrightarrow>
        e = InvalidChainType \<and> ct \<noteq> CUNNINGHAM_CHAIN_1 \<and> ct \<noteq> CUNNINGHAM_CHAIN_2 \<and>
        fermatPrimalityTest n \<and> isProbablePrime n \<and> 1 < T \<and> 0 < n \<and> n < 4)
   \<and> (buildChainNumbers origin len ct = Inl e \<longleftrightarrow>
        (len < 1 \<and> e = InvalidChainLength) \<or>
        (1 \<le> len \<and> ct \<noteq> CUNNINGHAM_CHAIN_1 \<and> ct \<noteq> CUNNINGHAM_CHAIN_2 \<and>
         ct \<noteq> BITWIN_CHAIN \<and> e = InvalidChainType))
   \<and> (buildChain origin len ct = Inl e \<longleftrightarrow> buildChainNumbers origin len ct = Inl e)"
proof -
  have neg: "findCunninghamChain isProbablePrime n ct T = Inr 0"
    if "\<not> fermatPrimalityTest n \<or> \<not> isProbablePrime n"
    using that by (auto simp: findCunninghamChain_def)
  have none: "findPrimeChain isProbablePrime origin T =
      Inr \<lparr>chainLength = 0, chainType = CUNNINGHAM_CHAIN_1\<rparr>"
    if "\<not> isProbablePrime (origin - 1)" "\<not> isProbablePrime (origin + 1)"
    using that by (simp add: findPrimeChain_def rejected_start)
  show ?thesis
    using neg none
    by (simp add: findChain_first findChain_second findPrimeChain_eq Let_def
          findCunninghamChain_throws [of isProbablePrime n ct T e]
          buildChainNumbers_exits [of origin len ct e] buildChain_exits)
qed

theorem error_policy_witness:
  "findCunninghamChain trialDivision 4 CUNNINGHAM_CHAIN_1 3 = Inr 0
   \<and> findPrimeChain trialDivision 15 3 = Inr \<lparr>chainLength = 0, chainType = CUNNINGHAM_CHAIN_1\<rparr>
   \<and> findCunninghamChain trialDivision 3 BITWIN_CHAIN 2 = Inl InvalidChainType
   \<and> buildChainNumbers 18 0 CUNNINGHAM_CHAIN_1 = Inl InvalidChainLength
   \<and> buildChain 18 3 ''TWN'' = Inl InvalidChainType"
proof -
  have a: "\<not> trialDivision 4" "\<not> trialDivision (15 - 1)" "\<not> trialDivision (15 + 1)"
    "trialDivision 3" "fermatPrimalityTest 3"
    by (simp_all add: trialDivision_def noDivisorFrom.simps fermatPrimalityTest_def modPow_def)
  have t: "''TWN'' \<noteq> CUNNINGHAM_CHAIN_1" "''TWN'' \<noteq> CUNNINGHAM_CHAIN_2" "''TWN'' \<noteq> BITWIN_CHAIN"
    by (simp_all add: CUNNINGHAM_CHAIN_1_def CUNNINGHAM_CHAIN_2_def BITWIN_CHAIN_def)
  from error_policy [of trialDivision 4 3 15 CUNNINGHAM_CHAIN_1 InvalidChainType 0]
    error_policy [of trialDivision 3 2 18 BITWIN_CHAIN InvalidChainType 0]
    error_policy [of trialDivision 3 2 18 "''TWN''" InvalidChainType 3]
    error_policy [of trialDivision 3 2 18 CUNNINGHAM_CHAIN_1 InvalidChainLength 0]
    a t
  show ?thesis by simp
qed

section \<open>The verifier\<close>

text \<open>
  C1. Whenever \<^verbatim>\<open>hasValidProof\<close> returns true, the header hash is at least \<open>2 ^ 255\<close>, the
  stored chain length is at least the target, the multiplier is at least 2, and the
  chain recomputed from the origin (hash times multiplier) reaches the target: from
  \<open>origin - 1\<close> for the first kind, from \<open>origin + 1\<close> for the second kind, and for the
  bi-twin chain with the two lengths, searched up to the upper and the lower half of the
  target, adding up to the target. An unrecognized chain type makes it return false.
\<close>

theorem hasValidProof_sound:
  "(hasValidProof hashHeader isProbablePrime b = Inr True \<longrightarrow>
      2 ^ 255 \<le> hashHeader (header b) (primeNonce b) \<and>
      target b \<le> primeChainLength b \<and>
      2 \<le> primeMultiplier b \<and>
      (primeChainType b = CUNNINGHAM_CHAIN_1 \<and>
         (\<exists>L. findCunninghamChain isProbablePrime
                 (hashHeader (header b) (primeNonce b) * primeMultiplier b - 1)
                 CUNNINGHAM_CHAIN_1 (target b) = Inr L \<and> target b \<le> L)
       \<or> primeChainType b = CUNNINGHAM_CHAIN_2 \<and>
         (\<exists>L. findCunninghamChain isProbablePrime
                 (hashHeader (header b) (primeNonce b) * primeMultiplier b + 1)
                 CUNNINGHAM_CHAIN_2 (target b) = Inr L \<and> target b \<le> L)
       \<or> primeChainType b = BITWIN_CHAIN \<and>
         (\<exists>L1 L2.
             findCunninghamChain isProbablePrime
               (hashHeader (header b) (primeNonce b) * primeMultiplier b - 1)
               CUNNINGHAM_CHAIN_1 ((target b + 1) div 2) = Inr L1 \<and>
             findCunninghamChain isProbablePrime
               (hashHeader (header b) (primeNonce b) * primeMultiplier b + 1)
               CUNNINGHAM_CHAIN_2 (target b div 2) = Inr L2 \<and>
             target b \<le> L1 + L2)))
   \<and> (primeChainType b \<noteq> CUNNINGHAM_CHAIN_1 \<and> primeChainType b \<noteq> CUNNINGHAM_CHAIN_2 \<and>
       primeChainType b \<noteq> BITWIN_CHAIN \<longrightarrow>
        hasValidProof hashHeader isProbablePrime b = Inr False)"
  using hasValidProof_accepts [of hashHeader isProbablePrime b]
    hasValidProof_unrecognized [of b hashHeader isProbablePrime]
  by blast

theorem hasValidProof_sound_witness:
  "hasValidProof (\<lambda>hdr nonce. exampleHash) (\<lambda>n. n = exampleHash * 562 + 1)
      \<lparr>header = (), target = 1, primeNonce = 0, primeMultiplier = 562,
       primeChainLength = 1, primeChainType = CUNNINGHAM_CHAIN_2\<rparr> = Inr True
   \<and> findCunninghamChain (\<lambda>n. n = exampleHash * 562 + 1) (exampleHash * 562 + 1)
        CUNNINGHAM_CHAIN_2 1 = Inr 1
   \<and> 2 ^ 255 \<le> exampleHash
   \<and> hasValidProof (\<lambda>hdr nonce. exampleHash) (\<lambda>n. n = exampleHash * 562 + 1)
        (newPrimeBlock () 0) = Inr False"
proof -
  let ?H = "\<lambda>(hdr::unit) (nonce::int). exampleHash"
  let ?ipp = "\<lambda>n. n = exampleHash * 562 + 1"
  let ?b = "\<lparr>header = (), target = 1, primeNonce = 0, primeMultiplier = 562,
       primeChainLength = 1, primeChainType = CUNNINGHAM_CHAIN_2\<rparr>"
  have c: "findCunninghamChain ?ipp (exampleHash * 562 + 1) CUNNINGHAM_CHAIN_2 1 = Inr 1"
    by (simp add: findCunninghamChain_def examplePrime_fermat)
  have v: "hasValidProof ?H ?ipp ?b = Inr True"
    by (simp add: hasValidProof_def exampleHash_large c)
  have t: "primeChainType (newPrimeBlock () 0) \<noteq> CUNNINGHAM_CHAIN_1"
    "primeChainType (newPrimeBlock () 0) \<noteq> CUNNINGHAM_CHAIN_2"
    "primeChainType (newPrimeBlock () 0) \<noteq> BITWIN_CHAIN"
    by (simp_all add: newPrimeBlock_def CUNNINGHAM_CHAIN_1_def CUNNINGHAM_CHAIN_2_def
          BITWIN_CHAIN_def)
  from hasValidProof_sound [of ?H ?ipp ?b] v
  have "2 ^ 255 \<le> exampleHash" by simp
  with hasValidProof_sound [of ?H ?ipp "newPrimeBlock () 0"] t v c
  show ?thesis by simp
qed

section \<open>The multiplier\<close>

text \<open>
  C9. The multiplier of the block under search is at least 2 in every state of the mining
  search: the constructor sets it to 2, an iteration of the search replaces it by 210
  times itself when a proof is recorded and by itself plus 1 otherwise, and the verifier
  rejects every block whose multiplier is below 2.
\<close>

theorem multiplier_at_least_two:
  "(findProof_state hashHeader isProbablePrime b \<longrightarrow> 2 \<le> primeMultiplier b)
   \<and> primeMultiplier (newPrimeBlock hdr tgt) = 2
   \<and> (findProof_round hashHeader isProbablePrime b = Inr (found, b') \<longrightarrow>
        (found \<and> primeMultiplier b' = 210 * primeMultiplier b) \<or>
        (\<not> found \<and> primeMultiplier b' = primeMultiplier b + 1))
   \<and> (primeMultiplier b < 2 \<longrightarrow> hasValidProof hashHeader isProbablePrime b = Inr False)"
  using findProof_state_multiplier [of hashHeader isProbablePrime b]
    findProof_round_multiplier [of hashHeader isProbablePrime b found b']
    hasValidProof_multiplier [of b hashHeader isProbablePrime]
  by (simp add: newPrimeBlock_def)

theorem multiplier_at_least_two_witness:
  "findProof_state (\<lambda>hdr nonce. exampleHash) (\<lambda>n. False)
      ((newPrimeBlock () 3) \<lparr>primeMultiplier := 3\<rparr>)
   \<and> findProof_round (\<lambda>hdr nonce. exampleHash) (\<lambda>n. False) (newPrimeBlock () 3) =
       Inr (False, (newPrimeBlock () 3) \<lparr>primeMultiplier := 3\<rparr>)
   \<and> (2::int) \<le> primeMultiplier ((newPrimeBlock () 3) \<lparr>primeMultiplier := 3\<rparr>)
   \<and> hasValidProof (\<lambda>hdr nonce. exampleHash) (\<lambda>n. False)
        ((newPrimeBlock () 3) \<lparr>primeMultiplier := 1\<rparr>) = Inr False"
proof -
  let ?H = "\<lambda>(hdr::unit) (nonce::int). exampleHash"
  let ?ipp = "\<lambda>n::int. False"
  let ?b = "newPrimeBlock () 3 :: unit PrimeBlock"
  let ?b' = "?b \<lparr>primeMultiplier := 3\<rparr>"
  have r: "findProof_round ?H ?ipp ?b = Inr (False, ?b')"
    by (simp add: findProof_round_def findPrimeChain_def rejected_start newPrimeBlock_def)
  have h: "\<not> ?H (header ?b) (primeNonce ?b) < BLOCK_HEADER_HASH_MIN"
    by (simp add: exampleHash_large)
  have s: "findProof_state ?H ?ipp ?b'"
    by (rule findProof_state.round [OF findProof_state.constructed h r])
  from multiplier_at_least_two [of ?H ?ipp ?b' "()" 3 False ?b']
    multiplier_at_least_two [of ?H ?ipp "?b \<lparr>primeMultiplier := 1\<rparr>" "()" 3 False ?b']
    r s
  show ?thesis by simp
qed

section \<open>The chain expansion\<close>

lemma upt_shift: "[0..<Suc m] = 0 # map Suc [0..<m]"
  by (simp add: upt_conv_Cons map_Suc_upt del: upt_Suc)

lemma buildChain_firstLoop_eq:
  assumes f: "\<And>m. f m = m * 2 + 1"
  shows "buildChain_firstLoop i len x acc = acc @ map (\<lambda>j. (f ^^ Suc j) x) [0..<nat (len - i)]"
proof (induction i len x acc rule: buildChain_firstLoop.induct)
  case (1 i len x acc)
  show ?case
  proof (cases "i < len")
    case True
    then have n: "nat (len - i) = Suc (nat (len - (i + 1)))" by simp
    have "buildChain_firstLoop i len x acc = buildChain_firstLoop (i + 1) len (f x) (acc @ [f x])"
      using True by (subst buildChain_firstLoop.simps) (simp add: f)
    also have "\<dots> = (acc @ [f x]) @ map (\<lambda>j. (f ^^ Suc j) (f x)) [0..<nat (len - (i + 1))]"
      using "1.IH" [OF True] by (simp only: f [of x, symmetric])
    also have "\<dots> = acc @ map (\<lambda>j. (f ^^ Suc j) x) [0..<nat (len - i)]"
      by (simp only: n upt_shift) (simp add: comp_def funpow_swap1 del: upt_Suc)
    finally show ?thesis .
  next
    case False
    then show ?thesis by (subst buildChain_firstLoop.simps) simp
  qed
qed

lemma buildChain_secondLoop_eq:
  assumes g: "\<And>m. g m = m * 2 - 1"
  shows "buildChain_secondLoop i len x acc = acc @ map (\<lambda>j. (g ^^ Suc j) x) [0..<nat (len - i)]"
proof (induction i len x acc rule: buildChain_secondLoop.induct)
  case (1 i len x acc)
  show ?case
  proof (cases "i < len")
    case True
    then have n: "nat (len - i) = Suc (nat (len - (i + 1)))" by simp
    have "buildChain_secondLoop i len x acc = buildChain_secondLoop (i + 1) len (g x) (acc @ [g x])"
      using True by (subst buildChain_secondLoop.simps) (simp add: g)
    also have "\<dots> = (acc @ [g x]) @ map (\<lambda>j. (g ^^ Suc j) (g x)) [0..<nat (len - (i + 1))]"
      using "1.IH" [OF True] by (simp only: g [of x, symmetric])
    also have "\<dots> = acc @ map (\<lambda>j. (g ^^ Suc j) x) [0..<nat (len - i)]"
      by (simp only: n upt_shift) (simp add: comp_def funpow_swap1 del: upt_Suc)
    finally show ?thesis .
  next
    case False
    then show ?thesis by (subst buildChain_secondLoop.simps) simp
  qed
qed

lemma buildChain_bitwinLoop_even:
  assumes f: "\<And>m. f m = m * 2 + 1" and g: "\<And>m. g m = m * 2 - 1"
  shows "even (len - i) \<Longrightarrow>
   buildChain_bitwinLoop i len a b acc =
     acc @ concat (map (\<lambda>j. [(f ^^ Suc j) a, (g ^^ Suc j) b]) [0..<nat ((len - i) div 2)])"
proof (induction i len a b acc rule: buildChain_bitwinLoop.induct)
  case (1 i len a b acc)
  show ?case
  proof (cases "i < len")
    case True
    with "1.prems" have ne: "i + 1 \<noteq> len" by auto
    from "1.prems" have ev: "even (len - (i + 2))" by simp
    from True "1.prems" have "2 \<le> len - i" by presburger
    then have n: "nat ((len - i) div 2) = Suc (nat ((len - (i + 2)) div 2))" by simp
    have "buildChain_bitwinLoop i len a b acc = buildChain_bitwinLoop (i + 2) len (f a) (g b) (acc @ [f a] @ [g b])"
      using True ne by (subst buildChain_bitwinLoop.simps) (simp add: f g)
    also have "\<dots> = (acc @ [f a] @ [g b]) @
        concat (map (\<lambda>j. [(f ^^ Suc j) (f a), (g ^^ Suc j) (g b)])
                  [0..<nat ((len - (i + 2)) div 2)])"
      using "1.IH"(2) [OF True ne ev] by (simp only: f [of a, symmetric] g [of b, symmetric])
    also have "\<dots> =
        acc @ concat (map (\<lambda>j. [(f ^^ Suc j) a, (g ^^ Suc j) b]) [0..<nat ((len - i) div 2)])"
      by (simp only: n upt_shift) (simp add: comp_def funpow_swap1 del: upt_Suc)
    finally show ?thesis .
  next
    case False
    then have "nat ((len - i) div 2) = 0" by simp
    with False show ?thesis by (subst buildChain_bitwinLoop.simps) simp
  qed
qed

lemma next_first: "nextCandidate_spec First m = m * 2 + 1"
  by simp

lemma next_second: "nextCandidate_spec Second m = m * 2 - 1"
  by simp

lemma expansion_first:
  assumes "1 \<le> len"
  shows "buildChainNumbers origin len CUNNINGHAM_CHAIN_1 =
    Inr (chainMembers First (origin - 1) (nat len))"
proof -
  from assms have n: "nat len = Suc (nat (len - 1))" by simp
  from assms show ?thesis
    by (simp only: buildChainNumbers_def chainMembers_def n upt_shift
          buildChain_firstLoop_eq [of "nextCandidate_spec First", OF next_first])
       (simp add: comp_def del: upt_Suc nextCandidate_spec.simps)
qed

lemma expansion_second:
  assumes "1 \<le> len"
  shows "buildChainNumbers origin len CUNNINGHAM_CHAIN_2 =
    Inr (chainMembers Second (origin + 1) (nat len))"
proof -
  from assms have n: "nat len = Suc (nat (len - 1))" by simp
  from assms show ?thesis
    by (simp only: buildChainNumbers_def chainMembers_def n upt_shift
          buildChain_secondLoop_eq [of "nextCandidate_spec Second", OF next_second])
       (simp add: comp_def del: upt_Suc nextCandidate_spec.simps)
qed

lemma expansion_bitwin:
  assumes "1 \<le> len" and "even len"
  shows "buildChainNumbers origin len BITWIN_CHAIN =
    Inr (bitwinMembers (origin - 1) (origin + 1) (nat len div 2))"
proof -
  from assms have "2 \<le> len" by presburger
  then have n: "nat len div 2 = Suc (nat ((len - 2) div 2))" by simp
  have ev: "even (len - 2)" using assms by simp
  from assms show ?thesis
    by (simp only: buildChainNumbers_def bitwinMembers_def n upt_shift
          buildChain_bitwinLoop_even [of "nextCandidate_spec First" "nextCandidate_spec Second",
            OF next_first next_second ev])
       (simp add: comp_def del: upt_Suc nextCandidate_spec.simps)
qed

lemma length_members:
  "length (chainMembers k n m) = m" "length (bitwinMembers a b m) = 2 * m"
  by (simp_all add: chainMembers_def bitwinMembers_def length_concat comp_def sum_list_triv)

subsection \<open>The members a search confirmed\<close>

lemma loop_members:
  "PrimalityTester_spec ipp n \<Longrightarrow>
   len \<le> findChainLoop_spec ipp k T n len \<and>
   (\<forall>j \<le> nat (findChainLoop_spec ipp k T n len - len).
      PrimalityTester_spec ipp ((nextCandidate_spec k ^^ j) n))"
proof (induction ipp k T n len rule: findChainLoop_spec.induct)
  case (1 stronger kind T n len)
  let ?n' = "nextCandidate_spec kind n"
  let ?L = "findChainLoop_spec stronger kind T n len"
  consider (stop) "\<not> ChainCriterion_spec n kind \<or> \<not> PrimalityTester_spec stronger ?n'"
    | (met) "ChainCriterion_spec n kind" "PrimalityTester_spec stronger ?n'" "len + 1 \<ge> T"
    | (go) "ChainCriterion_spec n kind" "PrimalityTester_spec stronger ?n'" "\<not> len + 1 \<ge> T"
    by blast
  then show ?case
  proof cases
    case stop
    then have "?L = len" by (subst findChainLoop_spec.simps) auto
    with "1.prems" show ?thesis by simp
  next
    case met
    then have L: "?L = len + 1" by (subst findChainLoop_spec.simps) auto
    have "PrimalityTester_spec stronger ((nextCandidate_spec kind ^^ j) n)" if "j \<le> 1" for j
    proof (cases j)
      case 0
      with "1.prems" show ?thesis by simp
    next
      case (Suc i)
      with that have "j = 1" by simp
      with met show ?thesis by simp
    qed
    with L show ?thesis by simp
  next
    case go
    then have L: "?L = findChainLoop_spec stronger kind T ?n' (len + 1)"
      by (subst findChainLoop_spec.simps) auto
    from go have c: "\<not> \<not> PrimalityTester_spec stronger ?n'" by simp
    note ih = "1.IH" [OF go(1) c go(3) go(2)]
    have "PrimalityTester_spec stronger ((nextCandidate_spec kind ^^ j) n)"
      if "j \<le> nat (?L - len)" for j
    proof (cases j)
      case 0
      with "1.prems" show ?thesis by simp
    next
      case (Suc i)
      with that L have "i \<le> nat (findChainLoop_spec stronger kind T ?n' (len + 1) - (len + 1))"
        by simp
      with ih have "PrimalityTester_spec stronger ((nextCandidate_spec kind ^^ i) ?n')" by blast
      with Suc show ?thesis by (simp add: funpow_swap1 del: nextCandidate_spec.simps)
    qed
    with ih L show ?thesis by simp
  qed
qed

lemma confirmed_member:
  assumes "findChain_spec ipp n k T = L" and "j < nat L"
  shows "PrimalityTester_spec ipp ((nextCandidate_spec k ^^ j) n)"
proof -
  from assms have p: "PrimalityTester_spec ipp n"
    by (auto simp: findChain_spec_def split: if_splits)
  show ?thesis
  proof (cases "1 \<ge> T")
    case True
    with assms p have "L = 1" by (simp add: findChain_spec_def)
    with assms p show ?thesis by simp
  next
    case False
    with assms p have "findChainLoop_spec ipp k T n 1 = L" by (simp add: findChain_spec_def)
    with loop_members [OF p, of 1 k T] assms show ?thesis by simp
  qed
qed

lemma tester_eq: "PrimalityTester_spec ipp = (\<lambda>x. fermatPrimalityTest x \<and> ipp x)"
  by (simp add: fun_eq_iff PrimalityTester_spec_def fermat_spec)

lemma confirmed_chain:
  assumes "findChain_spec ipp n k T = L"
  shows "list_all (\<lambda>x. fermatPrimalityTest x \<and> ipp x) (chainMembers k n (nat L))"
  using confirmed_member [OF assms]
  by (simp add: chainMembers_def list_all_iff tester_eq del: nextCandidate_spec.simps)

lemma confirmed_bitwin:
  assumes "findChain_spec ipp a First T = L1" and "findChain_spec ipp b Second T = L2"
    and "m \<le> nat L1" and "m \<le> nat L2"
  shows "list_all (\<lambda>x. fermatPrimalityTest x \<and> ipp x) (bitwinMembers a b m)"
proof -
  have "PrimalityTester_spec ipp ((nextCandidate_spec First ^^ j) a) \<and>
        PrimalityTester_spec ipp ((nextCandidate_spec Second ^^ j) b)" if "j < m" for j
    using that assms(3,4) confirmed_member [OF assms(1), of j] confirmed_member [OF assms(2), of j]
    by simp
  then show ?thesis
    by (simp add: bitwinMembers_def list_all_iff tester_eq del: nextCandidate_spec.simps)
qed

lemma hd_members: "0 < m \<Longrightarrow> hd (chainMembers k n m) = n"
  by (cases m) (simp_all add: chainMembers_def upt_shift del: upt_Suc)

lemma hd_bitwin: "0 < m \<Longrightarrow> hd (bitwinMembers a b m) = a"
  by (cases m) (simp_all add: bitwinMembers_def upt_shift del: upt_Suc)

text \<open>
  C5, as amended. For every origin and every chain length of at least 1, the expansion for
  \<^verbatim>\<open>CUNNINGHAM_CHAIN_1\<close> is the list of exactly that many numbers starting at
  \<open>origin - 1\<close> and stepping by \<open>2n + 1\<close>, and for \<^verbatim>\<open>CUNNINGHAM_CHAIN_2\<close> the list
  starting at \<open>origin + 1\<close> and stepping by \<open>2n - 1\<close>; the string returned joins their decimal
  forms with commas. For \<^verbatim>\<open>BITWIN_CHAIN\<close> and an even chain length it is the list of
  exactly that many numbers, the two sequences interleaved. When the chain length is the
  one \<^verbatim>\<open>findCunninghamChain\<close> returned for the first number, the chain type and some
  target, every number of the expansion passed the searcher's primality pair and
  searching again from the first number returns the same length; for a bi-twin length
  of twice the first length, when the second length is no shorter, every number of the
  expansion passed the primality pair as well.
\<close>

theorem buildChain_expansion:
  assumes "1 \<le> len"
  shows
    "buildChainNumbers origin len CUNNINGHAM_CHAIN_1 =
        Inr (chainMembers First (origin - 1) (nat len))
     \<and> buildChainNumbers origin len CUNNINGHAM_CHAIN_2 =
        Inr (chainMembers Second (origin + 1) (nat len))
     \<and> buildChain origin len CUNNINGHAM_CHAIN_1 =
        Inr (joinComma (map toString (chainMembers First (origin - 1) (nat len))))
     \<and> buildChain origin len CUNNINGHAM_CHAIN_2 =
        Inr (joinComma (map toString (chainMembers Second (origin + 1) (nat len))))
     \<and> length (chainMembers First (origin - 1) (nat len)) = nat len
     \<and> length (chainMembers Second (origin + 1) (nat len)) = nat len
     \<and> (even len \<longrightarrow>
          buildChainNumbers origin len BITWIN_CHAIN =
            Inr (bitwinMembers (origin - 1) (origin + 1) (nat len div 2)) \<and>
          length (bitwinMembers (origin - 1) (origin + 1) (nat len div 2)) = nat len \<and>
          hd (bitwinMembers (origin - 1) (origin + 1) (nat len div 2)) = origin - 1)
     \<and> (findCunninghamChain isProbablePrime (origin - 1) CUNNINGHAM_CHAIN_1 T = Inr len \<longrightarrow>
          list_all (\<lambda>x. fermatPrimalityTest x \<and> isProbablePrime x)
            (chainMembers First (origin - 1) (nat len)) \<and>
          findCunninghamChain isProbablePrime
            (hd (chainMembers First (origin - 1) (nat len))) CUNNINGHAM_CHAIN_1 T = Inr len)
     \<and> (findCunninghamChain isProbablePrime (origin + 1) CUNNINGHAM_CHAIN_2 T = Inr len \<longrightarrow>
          list_all (\<lambda>x. fermatPrimalityTest x \<and> isProbablePrime x)
            (chainMembers Second (origin + 1) (nat len)) \<and>
          findCunninghamChain isProbablePrime
            (hd (chainMembers Second (origin + 1) (nat len))) CUNNINGHAM_CHAIN_2 T = Inr len)
     \<and> (findCunninghamChain isProbablePrime (origin - 1) CUNNINGHAM_CHAIN_1 T = Inr L1 \<and>
         findCunninghamChain isProbablePrime (origin + 1) CUNNINGHAM_CHAIN_2 T = Inr L2 \<and>
         len = 2 * L1 \<and> L1 \<le> L2 \<longrightarrow>
          list_all (\<lambda>x. fermatPrimalityTest x \<and> isProbablePrime x)
            (bitwinMembers (origin - 1) (origin + 1) (nat len div 2)))"
proof -
  from assms have pos: "0 < nat len" by simp
  have first: "list_all (\<lambda>x. fermatPrimalityTest x \<and> isProbablePrime x)
      (chainMembers First (origin - 1) (nat len))"
    if "findCunninghamChain isProbablePrime (origin - 1) CUNNINGHAM_CHAIN_1 T = Inr len"
    using that confirmed_chain [of isProbablePrime "origin - 1" First T len]
    by (simp add: findChain_first)
  have second: "list_all (\<lambda>x. fermatPrimalityTest x \<and> isProbablePrime x)
      (chainMembers Second (origin + 1) (nat len))"
    if "findCunninghamChain isProbablePrime (origin + 1) CUNNINGHAM_CHAIN_2 T = Inr len"
    using that confirmed_chain [of isProbablePrime "origin + 1" Second T len]
    by (simp add: findChain_second)
  have both: "list_all (\<lambda>x. fermatPrimalityTest x \<and> isProbablePrime x)
      (bitwinMembers (origin - 1) (origin + 1) (nat len div 2))"
    if "findCunninghamChain isProbablePrime (origin - 1) CUNNINGHAM_CHAIN_1 T = Inr L1"
      "findCunninghamChain isProbablePrime (origin + 1) CUNNINGHAM_CHAIN_2 T = Inr L2"
      "len = 2 * L1" "L1 \<le> L2"
  proof (rule confirmed_bitwin)
    show "findChain_spec isProbablePrime (origin - 1) First T = L1"
      using that(1) by (simp add: findChain_first)
    show "findChain_spec isProbablePrime (origin + 1) Second T = L2"
      using that(2) by (simp add: findChain_second)
    show "nat len div 2 \<le> nat L1" using that(3) by simp
    show "nat len div 2 \<le> nat L2" using that(3,4) by simp
  qed
  have len2: "2 * (nat len div 2) = nat len" if "even len"
    using that assms by (simp add: even_nat_iff)
  have half: "0 < nat len div 2" if "even len"
  proof -
    from that assms have "2 \<le> len" by presburger
    then have "2 \<le> nat len" by simp
    then show ?thesis by simp
  qed
  show ?thesis
    using first second both len2 half
    by (simp add: expansion_first [OF assms] expansion_second [OF assms] expansion_bitwin [OF assms]
          buildChain_def length_members hd_members [OF pos] hd_bitwin)
qed

theorem buildChain_expansion_witness:
  "(1::int) \<le> 3
   \<and> findCunninghamChain trialDivision (18 + 1) CUNNINGHAM_CHAIN_2 3 = Inr 3
   \<and> buildChainNumbers 18 3 CUNNINGHAM_CHAIN_2 = Inr [19, 37, 73]
   \<and> buildChain 18 3 CUNNINGHAM_CHAIN_2 = Inr ''19,37,73''
   \<and> list_all (\<lambda>x. fermatPrimalityTest x \<and> trialDivision x) [19, 37, 73]
   \<and> findCunninghamChain trialDivision (6 - 1) CUNNINGHAM_CHAIN_1 2 = Inr 2
   \<and> findCunninghamChain trialDivision (6 + 1) CUNNINGHAM_CHAIN_2 2 = Inr 2
   \<and> buildChainNumbers 6 4 BITWIN_CHAIN = Inr [5, 7, 11, 13]
   \<and> list_all (\<lambda>x. fermatPrimalityTest x \<and> trialDivision x) [5, 7, 11, 13]"
proof -
  have m: "chainMembers Second 19 3 = [19, 37, 73]" "bitwinMembers 5 7 2 = [5, 7, 11, 13]"
    by (simp_all add: chainMembers_def bitwinMembers_def eval_nat_numeral)
  have s: "toString 19 = ''19''" "toString 37 = ''37''" "toString 73 = ''73''"
    by (simp_all add: toString_def digitsOf.simps)
  have c: "findCunninghamChain trialDivision 5 CUNNINGHAM_CHAIN_1 2 = Inr 2"
    "findCunninghamChain trialDivision 7 CUNNINGHAM_CHAIN_2 2 = Inr 2"
    by (simp_all add: search_eval)
  from buildChain_expansion [of 3 18 trialDivision 3 0 0]
    buildChain_expansion [of 4 6 trialDivision 2 2 2]
  show ?thesis
    by (simp add: chain_from_19 m s c)
qed

text \<open>
  The claim as stated fails in three ways. For a chain length that no search returned
  the expansion is not what the searcher walked: from the origin 18 the second kind
  reaches the length 3, and the expansion for the length 5 lists 145 and 289. For a
  bi-twin chain that the selector returned (origin 6, target 2, length 4), searching again
  from the first number of the expansion returns the length 2 of the first kind, not the
  bi-twin length. For a bi-twin chain of odd length (origin 6, target 3, length 5) the
  expansion is two numbers longer and lists 25.
\<close>

theorem buildChain_counterexample:
  "buildChainNumbers 18 5 CUNNINGHAM_CHAIN_2 = Inr [19, 37, 73, 145, 289]
   \<and> findCunninghamChain trialDivision 19 CUNNINGHAM_CHAIN_2 5 = Inr 3
   \<and> \<not> fermatPrimalityTest 145
   \<and> findPrimeChain trialDivision 6 2 = Inr \<lparr>chainLength = 4, chainType = BITWIN_CHAIN\<rparr>
   \<and> buildChainNumbers 6 4 BITWIN_CHAIN = Inr [5, 7, 11, 13]
   \<and> findCunninghamChain trialDivision 5 CUNNINGHAM_CHAIN_1 2 = Inr 2
   \<and> findPrimeChain trialDivision 6 3 = Inr \<lparr>chainLength = 5, chainType = BITWIN_CHAIN\<rparr>
   \<and> buildChainNumbers 6 5 BITWIN_CHAIN = Inr [5, 7, 11, 13, 23, 25, 47]"
proof -
  have a: "buildChainNumbers 18 5 CUNNINGHAM_CHAIN_2 = Inr [19, 37, 73, 145, 289]"
    "buildChainNumbers 6 4 BITWIN_CHAIN = Inr [5, 7, 11, 13]"
    "buildChainNumbers 6 5 BITWIN_CHAIN = Inr [5, 7, 11, 13, 23, 25, 47]"
    by (simp_all add: buildChainNumbers_def buildChain_secondLoop.simps
          buildChain_bitwinLoop.simps)
  have b: "\<not> fermatPrimalityTest 145"
    by (simp add: fermatPrimalityTest_def modPow_def)
  have c: "findCunninghamChain trialDivision 5 CUNNINGHAM_CHAIN_1 2 = Inr 2"
    "findCunninghamChain trialDivision 7 CUNNINGHAM_CHAIN_2 2 = Inr 2"
    "findCunninghamChain trialDivision 5 CUNNINGHAM_CHAIN_1 3 = Inr 3"
    "findCunninghamChain trialDivision 7 CUNNINGHAM_CHAIN_2 3 = Inr 2"
    by (simp_all add: search_eval)
  have d: "findPrimeChain trialDivision 6 2 = Inr \<lparr>chainLength = 4, chainType = BITWIN_CHAIN\<rparr>"
    "findPrimeChain trialDivision 6 3 = Inr \<lparr>chainLength = 5, chainType = BITWIN_CHAIN\<rparr>"
    by (simp_all add: findPrimeChain_def c)
  show ?thesis
    by (simp add: a b c d chain_from_19)
qed

section \<open>The regression fixtures\<close>

text \<open>
  C6, as amended. For every target of at least 3, \<^verbatim>\<open>findPrimeChain\<close> at the origin 18
  returns the chain of the second kind of length 3 (19, 37, 73), which is longer than 2,
  provided the library test accepts these three primes; at the origin 17 it returns the
  length 0 for every target, since 16 and 18 fail the Fermat test.
\<close>

theorem findPrimeChain_fixtures:
  assumes "3 \<le> T" and "isProbablePrime 19" and "isProbablePrime 37" and "isProbablePrime 73"
  shows "findPrimeChain isProbablePrime 18 T =
           Inr \<lparr>chainLength = 3, chainType = CUNNINGHAM_CHAIN_2\<rparr>
     \<and> (\<exists>r. findPrimeChain isProbablePrime 18 T = Inr r \<and> chainLength r > 2)
     \<and> findPrimeChain isProbablePrime 17 T' =
           Inr \<lparr>chainLength = 0, chainType = CUNNINGHAM_CHAIN_1\<rparr>"
proof -
  have f: "fermatPrimalityTest 19" "fermatPrimalityTest 37" "fermatPrimalityTest 73"
    "\<not> fermatPrimalityTest 16" "\<not> fermatPrimalityTest 18"
    by (simp_all add: fermatPrimalityTest_def modPow_def)
  have e: "\<not> eulerLagrangePrimalityTest 17 CUNNINGHAM_CHAIN_1"
    "eulerLagrangePrimalityTest 19 CUNNINGHAM_CHAIN_2"
    "eulerLagrangePrimalityTest 37 CUNNINGHAM_CHAIN_2"
    "\<not> eulerLagrangePrimalityTest 73 CUNNINGHAM_CHAIN_2"
    by (simp_all add: eulerLagrangePrimalityTest_def pow_def)
  have l3: "findCunninghamChain_loop isProbablePrime CUNNINGHAM_CHAIN_2 T 73 3 = Inr 3"
    by (subst findCunninghamChain_loop.simps) (simp add: e)
  have l2: "findCunninghamChain_loop isProbablePrime CUNNINGHAM_CHAIN_2 T 37 2 = Inr 3"
    using assms by (subst findCunninghamChain_loop.simps) (auto simp: e f l3)
  have l1: "findCunninghamChain_loop isProbablePrime CUNNINGHAM_CHAIN_2 T 19 1 = Inr 3"
    using assms by (subst findCunninghamChain_loop.simps) (simp add: e f l2)
  have second: "findCunninghamChain isProbablePrime 19 CUNNINGHAM_CHAIN_2 T = Inr 3"
    using assms by (simp add: findCunninghamChain_def f l1)
  have "findCunninghamChain_loop isProbablePrime CUNNINGHAM_CHAIN_1 T 17 1 = Inr 1"
    by (subst findCunninghamChain_loop.simps) (simp add: e)
  then have first: "findCunninghamChain isProbablePrime 17 CUNNINGHAM_CHAIN_1 T = Inr 0 \<or>
      findCunninghamChain isProbablePrime 17 CUNNINGHAM_CHAIN_1 T = Inr 1"
    using assms by (simp add: findCunninghamChain_def)
  have none: "findCunninghamChain isProbablePrime 16 CUNNINGHAM_CHAIN_1 T' = Inr 0"
    "findCunninghamChain isProbablePrime 18 CUNNINGHAM_CHAIN_2 T' = Inr 0"
    by (simp_all add: findCunninghamChain_def f)
  from first have eighteen: "findPrimeChain isProbablePrime 18 T =
      Inr \<lparr>chainLength = 3, chainType = CUNNINGHAM_CHAIN_2\<rparr>"
    by (auto simp: findPrimeChain_def second)
  have "findPrimeChain isProbablePrime 17 T' =
      Inr \<lparr>chainLength = 0, chainType = CUNNINGHAM_CHAIN_1\<rparr>"
    by (simp add: findPrimeChain_def none)
  with eighteen show ?thesis by simp
qed

theorem findPrimeChain_fixtures_witness:
  "(3::int) \<le> 3 \<and> trialDivision 19 \<and> trialDivision 37 \<and> trialDivision 73
   \<and> findPrimeChain trialDivision 18 3 = Inr \<lparr>chainLength = 3, chainType = CUNNINGHAM_CHAIN_2\<rparr>
   \<and> findPrimeChain trialDivision 17 3 = Inr \<lparr>chainLength = 0, chainType = CUNNINGHAM_CHAIN_1\<rparr>"
proof -
  have p: "trialDivision 19" "trialDivision 37" "trialDivision 73"
    by (simp_all add: trialDivision_def noDivisorFrom.simps)
  from findPrimeChain_fixtures [of 3 trialDivision 3, OF _ p] p show ?thesis by simp
qed

text \<open>
  The claim as stated fails at the targets 1 and 2, where the search stops at the target:
  at the origin 18 the result has the length 2.
\<close>

theorem findPrimeChain_fixtures_counterexample:
  "findPrimeChain trialDivision 18 2 = Inr \<lparr>chainLength = 2, chainType = CUNNINGHAM_CHAIN_2\<rparr>
   \<and> findPrimeChain trialDivision 18 1 = Inr \<lparr>chainLength = 2, chainType = BITWIN_CHAIN\<rparr>
   \<and> \<not> chainLength \<lparr>chainLength = 2, chainType = CUNNINGHAM_CHAIN_2\<rparr> > 2"
  by (simp add: findPrimeChain_def search_eval)

section \<open>The lengths the callers receive\<close>

lemma findChain_below_one:
  "T < 1 \<Longrightarrow> findChain_spec ipp n k T = (if fermatPrimalityTest n \<and> ipp n then 1 else 0)"
  by (simp add: findChain_spec_def PrimalityTester_spec_def fermat_spec)

lemma findPrimeChain_bound:
  assumes "1 \<le> T"
  shows "\<exists>r. findPrimeChain ipp origin T = Inr r \<and> 0 \<le> chainLength r \<and>
    chainLength r \<le> 2 * T \<and> (chainType r = BITWIN_CHAIN \<or> chainLength r \<le> T)"
  using findChain_bound [OF assms, of ipp "origin - 1" First]
    findChain_bound [OF assms, of ipp "origin + 1" Second]
  by (auto simp: findPrimeChain_eq Let_def)

lemma findProof_round_recorded:
  assumes "findProof_round H ipp b = Inr (True, b')" and "1 \<le> target b"
  shows "target b \<le> primeChainLength b' \<and> primeChainLength b' \<le> 2 * target b \<and>
    (primeChainType b' = BITWIN_CHAIN \<or> primeChainLength b' = target b)"
proof -
  let ?o = "H (header b) (primeNonce b) * (BI_BASE_PRIMORIAL * primeMultiplier b)"
  from findPrimeChain_bound [OF assms(2), of ipp ?o]
  obtain r where r: "findPrimeChain ipp ?o (target b) = Inr r" "chainLength r \<le> 2 * target b"
    "chainType r = BITWIN_CHAIN \<or> chainLength r \<le> target b"
    by blast
  from assms(1) r(1) have "chainLength r \<ge> target b" "primeChainLength b' = chainLength r"
    "primeChainType b' = chainType r"
    by (auto simp: findProof_round_def Let_def split: if_splits)
  with r show ?thesis by auto
qed

lemma chain_from_5_and_7:
  "findCunninghamChain trialDivision 5 CUNNINGHAM_CHAIN_1 2 = Inr 2"
  "findCunninghamChain trialDivision 7 CUNNINGHAM_CHAIN_2 2 = Inr 2"
  "findCunninghamChain trialDivision 7 CUNNINGHAM_CHAIN_2 0 = Inr 1"
  by (simp_all add: search_eval)

lemma chain_from_419_and_421:
  "findCunninghamChain trialDivision 419 CUNNINGHAM_CHAIN_1 2 = Inr 2"
  "findCunninghamChain trialDivision 421 CUNNINGHAM_CHAIN_2 2 = Inr 1"
  by (simp_all add: search_eval)

lemma selector_at_6:
  "findPrimeChain trialDivision 6 2 = Inr \<lparr>chainLength = 4, chainType = BITWIN_CHAIN\<rparr>"
  by (simp add: findPrimeChain_def chain_from_5_and_7)

lemma round_at_420:
  "findProof_round (\<lambda>hdr nonce. 1) trialDivision (newPrimeBlock () 2) =
     Inr (True, (newPrimeBlock () 2) \<lparr>primeMultiplier := 420, primeChainLength := 3,
            primeChainType := BITWIN_CHAIN\<rparr>)"
proof -
  have "findPrimeChain trialDivision 420 2 = Inr \<lparr>chainLength = 3, chainType = BITWIN_CHAIN\<rparr>"
    by (simp add: findPrimeChain_def chain_from_419_and_421)
  then show ?thesis
    by (simp add: findProof_round_def newPrimeBlock_def BI_BASE_PRIMORIAL_def)
qed

text \<open>
  C10, as amended. For every \<open>n\<close>, both Cunningham chain types and every integer target
  of at least 1, \<^verbatim>\<open>findCunninghamChain\<close> returns a length between 0 and the target: the
  early exits cap the length at the target the caller passed. For a target below 1 it
  returns 1 when \<open>n\<close> passes the primality pair and 0 otherwise, so the verifier's bi-twin
  call of the second kind, which passes the lower half of the target, can receive 1 for
  the target 0. \<^verbatim>\<open>findPrimeChain\<close> with a target of at least 1 returns a length of at most
  the target for a Cunningham chain and of at most twice the target for a bi-twin chain,
  and the chain length that \<^verbatim>\<open>findProof\<close> records is the target for a Cunningham chain and
  lies between the target and twice the target for a bi-twin chain.
\<close>

theorem findCunninghamChain_capped:
  "(1 \<le> T \<and> (ct = CUNNINGHAM_CHAIN_1 \<or> ct = CUNNINGHAM_CHAIN_2) \<longrightarrow>
      (\<exists>L. findCunninghamChain isProbablePrime n ct T = Inr L \<and> 0 \<le> L \<and> L \<le> T))
   \<and> (T < 1 \<and> (ct = CUNNINGHAM_CHAIN_1 \<or> ct = CUNNINGHAM_CHAIN_2) \<longrightarrow>
      findCunninghamChain isProbablePrime n ct T =
        Inr (if fermatPrimalityTest n \<and> isProbablePrime n then 1 else 0))
   \<and> (1 \<le> T \<longrightarrow>
      (\<exists>r. findPrimeChain isProbablePrime origin T = Inr r \<and> 0 \<le> chainLength r \<and>
           chainLength r \<le> 2 * T \<and> (chainType r = BITWIN_CHAIN \<or> chainLength r \<le> T)))
   \<and> (findProof_round hashHeader isProbablePrime b = Inr (True, b') \<and> 1 \<le> target b \<longrightarrow>
      target b \<le> primeChainLength b' \<and> primeChainLength b' \<le> 2 * target b \<and>
      (primeChainType b' = BITWIN_CHAIN \<or> primeChainLength b' = target b))"
proof -
  have capped: "\<exists>L. findCunninghamChain isProbablePrime n ct T = Inr L \<and> 0 \<le> L \<and> L \<le> T"
    if "1 \<le> T" "ct = CUNNINGHAM_CHAIN_1 \<or> ct = CUNNINGHAM_CHAIN_2"
    using that findChain_bound [of T isProbablePrime n First]
      findChain_bound [of T isProbablePrime n Second]
    by (auto simp: findChain_first findChain_second)
  have below: "findCunninghamChain isProbablePrime n ct T =
      Inr (if fermatPrimalityTest n \<and> isProbablePrime n then 1 else 0)"
    if "T < 1" "ct = CUNNINGHAM_CHAIN_1 \<or> ct = CUNNINGHAM_CHAIN_2"
    using that by (auto simp: findChain_first findChain_second findChain_below_one)
  show ?thesis
    using capped below findPrimeChain_bound [of T isProbablePrime origin]
      findProof_round_recorded [of hashHeader isProbablePrime b b']
    by blast
qed

theorem findCunninghamChain_capped_witness:
  "findCunninghamChain trialDivision 19 CUNNINGHAM_CHAIN_2 2 = Inr 2
   \<and> findCunninghamChain trialDivision 19 CUNNINGHAM_CHAIN_2 5 = Inr 3
   \<and> (\<exists>L. findCunninghamChain trialDivision 19 CUNNINGHAM_CHAIN_2 2 = Inr L \<and> 0 \<le> L \<and> L \<le> 2)
   \<and> findCunninghamChain trialDivision 7 CUNNINGHAM_CHAIN_2 0 = Inr 1
   \<and> findPrimeChain trialDivision 6 2 = Inr \<lparr>chainLength = 4, chainType = BITWIN_CHAIN\<rparr>
   \<and> (4::int) \<le> 2 * 2
   \<and> findProof_round (\<lambda>hdr nonce. 1) trialDivision (newPrimeBlock () 2) =
       Inr (True, (newPrimeBlock () 2) \<lparr>primeMultiplier := 420, primeChainLength := 3,
              primeChainType := BITWIN_CHAIN\<rparr>)
   \<and> (2::int) \<le> 3 \<and> (3::int) \<le> 2 * 2"
proof -
  let ?H = "\<lambda>(hdr::unit) (nonce::int). 1::int"
  let ?b = "newPrimeBlock () 2 :: unit PrimeBlock"
  let ?b' = "?b \<lparr>primeMultiplier := 420, primeChainLength := 3, primeChainType := BITWIN_CHAIN\<rparr>"
  from findCunninghamChain_capped [of 2 CUNNINGHAM_CHAIN_2 trialDivision 19 6 ?H ?b ?b']
    findCunninghamChain_capped [of 0 CUNNINGHAM_CHAIN_2 trialDivision 7 6 ?H ?b ?b']
  show ?thesis
    by (simp add: chain_from_19 chain_from_5_and_7 selector_at_6 round_at_420)
qed

text \<open>
  The claim as stated fails where it says that no caller sees a length above the target
  it passed. At the origin 6 and the target 2 both sides reach the length 2 and the
  selector returns the bi-twin length 4, which is the chain length \<^verbatim>\<open>findProof\<close> records.
  For a block of target 1 the verifier's bi-twin call of the second kind passes the
  target 0 and receives 1.
\<close>

theorem findCunninghamChain_capped_counterexample:
  "findCunninghamChain trialDivision 5 CUNNINGHAM_CHAIN_1 2 = Inr 2
   \<and> findCunninghamChain trialDivision 7 CUNNINGHAM_CHAIN_2 2 = Inr 2
   \<and> findPrimeChain trialDivision 6 2 = Inr \<lparr>chainLength = 4, chainType = BITWIN_CHAIN\<rparr>
   \<and> \<not> (4::int) \<le> 2
   \<and> findCunninghamChain trialDivision 7 CUNNINGHAM_CHAIN_2 (1 div 2) = Inr 1
   \<and> \<not> (1::int) \<le> 1 div 2"
  by (simp add: selector_at_6 chain_from_5_and_7)

end
